theory Spec2Isabelle
  imports Complex_Main "HOL-Library.Sublist"
begin

unbundle bit_operations_syntax

section \<open>JavaScript values used by the generator\<close>

text \<open>
  A JavaScript number as the port validator sees it: the result of the unary plus applied to
  a command-line token. Every finite double is a rational; \<open>Infinity True\<close> is
  \<open>+Infinity\<close>, \<open>Infinity False\<close> is \<open>-Infinity\<close>.
\<close>

datatype js_number = NaN | Infinity bool | Finite rat

text \<open>\<open>Number.isInteger\<close>: finite and without fractional part.\<close>

definition Number_isInteger :: "js_number \<Rightarrow> bool" where
  "Number_isInteger x = (case x of Finite q \<Rightarrow> of_int \<lfloor>q\<rfloor> = q | _ \<Rightarrow> False)"

text \<open>The comparisons \<open>num < 1\<close> and \<open>num > 65535\<close> on a JavaScript number
  (every comparison with \<open>NaN\<close> is false).\<close>

definition js_less_1 :: "js_number \<Rightarrow> bool" where
  "js_less_1 x = (case x of NaN \<Rightarrow> False | Infinity pos \<Rightarrow> \<not> pos | Finite q \<Rightarrow> q < 1)"

definition js_greater_65535 :: "js_number \<Rightarrow> bool" where
  "js_greater_65535 x = (case x of NaN \<Rightarrow> False | Infinity pos \<Rightarrow> pos | Finite q \<Rightarrow> q > 65535)"

text \<open>The integer a number stands for, once \<open>Number.isInteger\<close> has accepted it.\<close>

definition int_of_js_number :: "js_number \<Rightarrow> int" where
  "int_of_js_number x = (case x of Finite q \<Rightarrow> \<lfloor>q\<rfloor> | _ \<Rightarrow> 0)"

text \<open>What the program prints with \<open>console.log\<close>, one entry per call. The two port
  warnings keep the values interpolated into their message; the styling is named in the
  constructor.\<close>

datatype console_event =
    Invalid_port string int
      \<comment> \<open>yellow, bold: \<open>"<val>" is an invalid port. Defaulting to <defaultPort>...\<close>\<close>
  | Port_out_of_range js_number int
      \<comment> \<open>yellow, bold: \<open>"<num>" is out of range (1 - 65535). Defaulting to <defaultPort>...\<close>\<close>
  | Log_yellow string
      \<comment> \<open>\<open>console.log(chalk.yellow(text))\<close>\<close>

section \<open>The port validator (modules/portValidator)\<close>

text \<open>
  \<open>portValidator(val, type, defaultPort)\<close>. The conversion \<open>+val\<close> of the token to a
  number is JavaScript's own; it is the parameter \<open>toNumber\<close>. The result is the console
  output and the port returned.
\<close>

definition portValidator ::
  "(string \<Rightarrow> js_number) \<Rightarrow> string \<Rightarrow> string \<Rightarrow> int \<Rightarrow> console_event list \<times> int" where
  "portValidator toNumber val type defaultPort =
     (let num = (if Number_isInteger (toNumber val) then Some (toNumber val) else None)
      in case num of
           None \<Rightarrow> ([Invalid_port val defaultPort], defaultPort)
         | Some n \<Rightarrow>
             if js_less_1 n \<or> js_greater_65535 n
             then ([Port_out_of_range n defaultPort], defaultPort)
             else ([], int_of_js_number n))"

section \<open>The option schema and the resolved options\<close>

text \<open>
  The object returned by \<open>cla(optionDefinitions, { partial: true })\<close>, one field per
  entry of \<open>optionDefinitions\<close>. A Boolean flag without default (\<open>version\<close>,
  \<open>help\<close>, \<open>express\<close>, \<open>mongo\<close>) is \<open>undefined\<close> when absent; the program only
  tests such a flag for truthiness, so \<open>False\<close> stands for \<open>undefined\<close> too.
  \<open>appName\<close> is \<open>None\<close> when no name was given (\<open>undefined\<close>), \<open>api\<close> is
  \<open>None\<close> for \<open>null\<close>. The ports are what the \<open>type\<close> functions of the schema return.
\<close>

record cla_options =
  version :: bool
  "help" :: bool
  appName :: "string option"
  title :: string
  redux :: bool
  router :: bool
  offline :: bool
  force :: bool
  sandbox :: bool
  author :: string
  description :: string
  email :: string
  "keywords" :: "string list"
  devServerPort :: int
  apiPort :: int
  api :: "string option"
  express :: bool
  mongo :: bool

text \<open>The resolved options: the parsed object spread, with the properties added by
  \<open>parseArgs\<close> and \<open>guidedProcess\<close>.\<close>

record options = cla_options +
  online :: bool
  server :: bool
  appDir :: string

text \<open>The \<open>type\<close> functions of the two port entries of \<open>optionDefinitions\<close>.\<close>

definition devServerPort_type :: "(string \<Rightarrow> js_number) \<Rightarrow> string \<Rightarrow> console_event list \<times> int" where
  "devServerPort_type toNumber val = portValidator toNumber val ''dev'' 8080"

definition apiPort_type :: "(string \<Rightarrow> js_number) \<Rightarrow> string \<Rightarrow> console_event list \<times> int" where
  "apiPort_type toNumber val = portValidator toNumber val ''api'' 3000"

text \<open>
  The \<open>defaultValue\<close> column of \<open>optionDefinitions\<close>: what the parser returns for a flag
  that is not on the command line, and what \<open>guidedProcess\<close> aggregates into
  \<open>defaultOptions\<close> (the entries without a default stay \<open>undefined\<close>).
\<close>

definition defaultOptions :: cla_options where
  "defaultOptions =
     \<lparr> version = False, help = False, appName = None, title = '''',
       redux = False, router = False, offline = False, force = False, sandbox = False,
       author = '''', description = '''', email = '''', keywords = [],
       devServerPort = 8080, apiPort = 3000, api = None, express = False, mongo = False \<rparr>"

text \<open>A template literal interpolates \<open>undefined\<close> as the text \<open>undefined\<close>.\<close>

definition js_template :: "string option \<Rightarrow> string" where
  "js_template s = (case s of None \<Rightarrow> ''undefined'' | Some t \<Rightarrow> t)"

text \<open>
  What a run finds around it: the connectivity probe's answer, the working directory, the
  verdict \<open>validForNewPackages\<close> of the external name validator, and the value the
  helper \<open>checkDirExists\<close> returns in this run.
\<close>

record env =
  isOnline :: bool
  cwd :: string
  validForNewPackages :: "string option \<Rightarrow> bool"
  checkDirExists :: bool

text \<open>The ways option resolution ends without options: each branch that returns a
  helper's value or calls \<open>process.exit()\<close>.\<close>

datatype exit = Show_version | Show_help | Dir_exists | Bad_name "string option"

section \<open>The argument resolver\<close>

text \<open>\<open>api ? api.replace(/ /g, '') : null\<close>\<close>

definition strip_api :: "string option \<Rightarrow> string option" where
  "strip_api a =
     (case a of
        None \<Rightarrow> None
      | Some s \<Rightarrow> if s = [] then None else Some (filter (\<lambda>c. c \<noteq> CHR '' '') s))"

text \<open>
  \<open>parseArgs(online)\<close> on the parsed command line \<open>opts\<close>. The options object is the
  parsed one spread, with \<open>online\<close>, \<open>offline\<close>, \<open>api\<close>, \<open>server\<close> and \<open>appDir\<close>
  added or replaced (\<open>redux\<close> and \<open>router\<close> are written back unchanged). The checks
  follow in the order of the source: version, help, the directory, sandbox, and the name
  last.
\<close>

definition parseArgs :: "env \<Rightarrow> cla_options \<Rightarrow> exit + options" where
  "parseArgs e opts =
     (let validation = validForNewPackages e (appName opts);
          opts' = cla_options.extend
                    (opts\<lparr> redux := redux opts, router := router opts,
                           offline := (\<not> isOnline e \<or> offline opts),
                           api := strip_api (api opts) \<rparr>)
                    (options.fields (isOnline e) (express opts \<or> mongo opts)
                       (cwd e @ ''/'' @ js_template (appName opts)))
      in if version opts then Inl Show_version
         else if help opts then Inl Show_help
         else if \<not> checkDirExists e then Inl Dir_exists
         else if sandbox opts then Inr (opts'\<lparr> sandbox := True \<rparr>)
         else if \<not> validation then Inl (Bad_name (appName opts))
         else Inr opts')"

section \<open>The interactive wizard\<close>

text \<open>
  \<open>promptYN\<close> resolves to the user's answer. The answers are a sequence, read in the
  order the questions are asked: \<open>promptYN replies i\<close> is the answer to the question
  asked as the \<open>i\<close>-th, with the position of the next question.
\<close>

definition promptYN :: "(nat \<Rightarrow> bool) \<Rightarrow> nat \<Rightarrow> bool \<times> nat" where
  "promptYN replies i = (replies i, Suc i)"

text \<open>
  \<open>guidedProcess(online)\<close>, with the name the user enters at the first prompt. The router
  question is asked only after redux was accepted, the mongo question only after express
  was; a question that is not asked takes no answer from the sequence, and its flag is the
  falsy left operand of \<open>&&\<close>.
\<close>

definition guidedProcess :: "env \<Rightarrow> string \<Rightarrow> (nat \<Rightarrow> bool) \<Rightarrow> exit + options" where
  "guidedProcess e name replies =
     (let appDir' = cwd e @ ''/'' @ name in
      if \<not> checkDirExists e then Inl Dir_exists
      else if \<not> validForNewPackages e (Some name) then Inl (Bad_name (Some name))
      else
        let (redux', i1) = promptYN replies 0;
            (router', i2) = (if redux' then promptYN replies i1 else (False, i1));
            (express', i3) = promptYN replies i2;
            (mongo', i4) = (if express' then promptYN replies i3 else (False, i3))
        in Inr (cla_options.extend
                  (defaultOptions\<lparr> appName := Some name, redux := redux', router := router',
                                     express := express', mongo := mongo',
                                     offline := \<not> isOnline e \<rparr>)
                  (options.fields (isOnline e) (express' \<or> mongo') appDir')))"

section \<open>Processing the user's command\<close>

text \<open>
  \<open>processUsersCommand(options)\<close>: what it prints, and the options it returns. The
  statement \<open>options.devServerPort++\<close> runs at most once.
\<close>

definition processUsersCommand :: "options \<Rightarrow> console_event list \<times> options" where
  "processUsersCommand opts =
     ((if \<not> sandbox opts \<and> (offline opts \<or> \<not> online opts)
       then (if \<not> online opts then [Log_yellow ''You appear to be offline.''] else [])
            @ [Log_yellow ''Installing via local npm cache.'']
       else []),
      (if (express opts \<or> mongo opts) \<and> devServerPort opts = apiPort opts
       then opts\<lparr> devServerPort := devServerPort opts + 1 \<rparr>
       else opts))"

section \<open>Text helpers\<close>

text \<open>\<open>Array.prototype.join\<close> on an array of strings.\<close>

fun join :: "string \<Rightarrow> string list \<Rightarrow> string" where
  "join sep [] = []"
| "join sep [x] = x"
| "join sep (x # y # ys) = x @ sep @ join sep (y # ys)"

text \<open>The digit of a value below 16, as \<open>toString(16)\<close> and \<open>toString(10)\<close> print it.\<close>

definition hex_digit :: "nat \<Rightarrow> char" where
  "hex_digit d = ''0123456789abcdef'' ! (d mod 16)"

text \<open>The text a template literal prints for an integer such as a port number: its
  decimal digits, after a minus sign when it is negative.\<close>

fun decimal :: "nat \<Rightarrow> string" where
  "decimal n = (if 10 \<le> n then decimal (n div 10) else []) @ [hex_digit (n mod 10)]"

definition Number_toString :: "int \<Rightarrow> string" where
  "Number_toString i = (if 0 \<le> i then decimal (nat i) else CHR ''-'' # decimal (nat \<bar>i\<bar>))"

section \<open>The environment file (file-creators/dotEnv.js)\<close>

text \<open>
  The micro UUID. \<open>uuid()\<close> takes the text \<open>10000000-1000-4000-8000-100000000000\<close>
  (what \<open>[1e7]+-1e3+-4e3+-8e3+-1e11\<close> concatenates to) and replaces every \<open>0\<close>, \<open>1\<close>
  and \<open>8\<close>, from left to right, by \<open>(a ^ Math.random()*16 >> a/4).toString(16)\<close>, where
  \<open>a\<close> is the digit replaced. The shift binds tighter than the exclusive or, and both
  truncate their operands to integers: the shift count \<open>a/4\<close> is 0, 0 and 2 for the three
  digits. The random source \<open>rnd\<close> is the parameter: \<open>rnd i\<close> is the \<open>i\<close>-th value of
  \<open>Math.random()*16\<close>, truncated (taken modulo 16, since the product is below 16).
\<close>

definition uuid_digit :: "char \<Rightarrow> nat \<Rightarrow> char" where
  "uuid_digit a r =
     (let d = of_char a - (48 :: nat)
      in hex_digit (d XOR drop_bit (d div 4) (r mod 16)))"

fun replace_018 :: "string \<Rightarrow> (nat \<Rightarrow> nat) \<Rightarrow> nat \<Rightarrow> string" where
  "replace_018 [] rnd i = []"
| "replace_018 (c # cs) rnd i =
     (if c \<in> {CHR ''0'', CHR ''1'', CHR ''8''}
      then uuid_digit c (rnd i) # replace_018 cs rnd (Suc i)
      else c # replace_018 cs rnd i)"

definition uuid :: "(nat \<Rightarrow> nat) \<Rightarrow> string" where
  "uuid rnd = replace_018 ''10000000-1000-4000-8000-100000000000'' rnd 0"

text \<open>\<open>mongo && text\<close> is the text when \<open>mongo\<close> is truthy and a falsy value otherwise;
  \<open>filter(Boolean)\<close> drops the falsy entries, the empty string among them.\<close>

definition js_and :: "bool \<Rightarrow> string \<Rightarrow> string option" where
  "js_and b s = (if b then Some s else None)"

definition filter_Boolean :: "string option list \<Rightarrow> string list" where
  "filter_Boolean xs =
     concat (map (\<lambda>x. case x of None \<Rightarrow> [] | Some s \<Rightarrow> if s = [] then [] else [s]) xs)"

text \<open>
  \<open>dotEnv(answers)\<close>. The arguments are the properties the function takes from
  \<open>answers\<close> and uses: \<open>appName\<close>, \<open>apiport\<close>, \<open>mongo\<close> and \<open>server\<close> (it also takes
  \<open>port\<close>, and never uses it). A property the object does not have is \<open>undefined\<close>,
  here \<open>None\<close>.
\<close>

definition dotEnv ::
  "(nat \<Rightarrow> nat) \<Rightarrow> string option \<Rightarrow> int option \<Rightarrow> bool \<Rightarrow> bool \<Rightarrow> string" where
  "dotEnv rnd appName' apiport' mongo' server' =
     (let name = ''appName='' @ js_template appName' @ [CHR 0x0A];
          contents = join [CHR 0x0A] (filter_Boolean
            [ Some (''PORT='' @ js_template (map_option Number_toString apiport')),
              js_and mongo' (''mongoURI=mongodb://localhost:27017/'' @ js_template appName'),
              js_and mongo' (''mongoSession='' @ js_template appName' @ ''Sessions''),
              js_and mongo' (''secret='' @ uuid rnd),
              Some name ])
      in if server' then contents else name)"

section \<open>The manifest (file-creators/packageJson.js)\<close>

text \<open>The values the manifest object holds, and \<open>JSON.stringify(value, null, 2)\<close> on them:
  a property whose value is \<open>undefined\<close> is left out of an object and printed as
  \<open>null\<close> in an array; an empty object or array is printed without line breaks.\<close>

datatype js_value = Undefined | Str string | Arr "js_value list" | Obj "(string \<times> js_value) list"

definition json_escape :: "char \<Rightarrow> string" where
  "json_escape c =
     (if c = CHR 0x22 then [CHR 0x5C, CHR 0x22]
      else if c = CHR 0x5C then [CHR 0x5C, CHR 0x5C]
      else if c = CHR 0x08 then [CHR 0x5C, CHR ''b'']
      else if c = CHR 0x09 then [CHR 0x5C, CHR ''t'']
      else if c = CHR 0x0A then [CHR 0x5C, CHR ''n'']
      else if c = CHR 0x0C then [CHR 0x5C, CHR ''f'']
      else if c = CHR 0x0D then [CHR 0x5C, CHR ''r'']
      else if (of_char c :: nat) < 32
        then [CHR 0x5C, CHR ''u'', CHR ''0'', CHR ''0'',
              hex_digit (of_char c div 16), hex_digit (of_char c mod 16)]
      else [c])"

definition quote :: "string \<Rightarrow> string" where
  "quote s = [CHR 0x22] @ concat (map json_escape s) @ [CHR 0x22]"

definition wrap :: "string \<Rightarrow> string \<Rightarrow> string \<Rightarrow> string list \<Rightarrow> string" where
  "wrap l r stepback parts =
     (if parts = [] then l @ r
      else l @ [CHR 0x0A] @ stepback @ ''  ''
             @ join ('','' @ [CHR 0x0A] @ stepback @ ''  '') parts
             @ [CHR 0x0A] @ stepback @ r)"

fun serialize :: "string \<Rightarrow> js_value \<Rightarrow> string option"
and serialize_elems :: "string \<Rightarrow> js_value list \<Rightarrow> string list"
and serialize_props :: "string \<Rightarrow> (string \<times> js_value) list \<Rightarrow> string list" where
  "serialize ind Undefined = None"
| "serialize ind (Str s) = Some (quote s)"
| "serialize ind (Arr xs) = Some (wrap ''['' '']'' ind (serialize_elems (ind @ ''  '') xs))"
| "serialize ind (Obj kvs) = Some (wrap ''{'' ''}'' ind (serialize_props (ind @ ''  '') kvs))"
| "serialize_elems ind [] = []"
| "serialize_elems ind (x # xs) =
     (case serialize ind x of None \<Rightarrow> ''null'' | Some s \<Rightarrow> s) # serialize_elems ind xs"
| "serialize_props ind [] = []"
| "serialize_props ind ((k, v) # kvs) =
     (case serialize ind v of
        None \<Rightarrow> serialize_props ind kvs
      | Some s \<Rightarrow> (quote k @ '': '' @ s) # serialize_props ind kvs)"

definition JSON_stringify_object :: "(string \<times> js_value) list \<Rightarrow> string" where
  "JSON_stringify_object kvs = wrap ''{'' ''}'' [] (serialize_props ''  '' kvs)"

definition js_of_string :: "string option \<Rightarrow> js_value" where
  "js_of_string s = (case s of None \<Rightarrow> Undefined | Some t \<Rightarrow> Str t)"

text \<open>
  \<open>packageJson(answers)\<close>, in two steps as in the source: the object it builds (its
  properties in insertion order), and the text \<open>JSON.stringify\<close> makes of it. The
  arguments are the properties taken from \<open>answers\<close>; \<open>keywords\<close> is \<open>None\<close> when the
  object has none, and the destructuring default \<open>[]\<close> applies.
\<close>

definition packageJson_object ::
  "string option \<Rightarrow> bool \<Rightarrow> string \<Rightarrow> string \<Rightarrow> string \<Rightarrow> string list option
     \<Rightarrow> (string \<times> js_value) list" where
  "packageJson_object appName' server' description' author' email' keywords' =
     [ (''name'', js_of_string appName'),
       (''version'', Str ''0.1.0''),
       (''description'', Str description'),
       (''keywords'', Arr (map Str (case keywords' of None \<Rightarrow> [] | Some ks \<Rightarrow> ks))),
       (''author'', Str author'),
       (''email'', Str email') ]
     @ (if server'
        then [ (''main'', Str ''server.js''),
               (''scripts'', Obj
                 [ (''build'',
                      Str ''cross-env NODE_ENV=production webpack --mode production --env.prod''),
                   (''build:dev'',
                      Str ''cross-env NODE_ENV=development webpack --mode development --env.dev''),
                   (''local'', Str ''npm run server:api''),
                   (''server:dev'',
                      Str ''webpack-dev-server --mode development --env.dev --open --progress''),
                   (''server:api'', Str ''nodemon server.js''),
                   (''start'',
                      Str ''cross-env NODE_ENV=development npm-run-all --parallel server:*'') ]) ]
        else [ (''scripts'', Obj
                 [ (''build'',
                      Str ''cross-env NODE_ENV=production webpack --mode production --env.prod''),
                   (''start'',
                      Str ''cross-env NODE_ENV=development webpack-dev-server --mode development --env.dev --open --progress'') ]) ])"

definition packageJson ::
  "string option \<Rightarrow> bool \<Rightarrow> string \<Rightarrow> string \<Rightarrow> string \<Rightarrow> string list option \<Rightarrow> string" where
  "packageJson appName' server' description' author' email' keywords' =
     JSON_stringify_object
       (packageJson_object appName' server' description' author' email' keywords')"

section \<open>The file assembler\<close>

text \<open>
  \<open>createFiles(options)\<close> as the list of file-system calls it makes, in order.
  \<open>Dir t\<close> is \<open>dir(t)\<close>, the path \<open>t\<close> resolved against the generator's own directory.
  The bundler configuration \<open>webpackConfig\<close> is not among the sources and is a parameter,
  as is the random source the environment file draws its secret from. The options object
  has the properties \<open>apiPort\<close> and \<open>devServerPort\<close> and no property \<open>apiport\<close>, so
  \<open>dotEnv\<close> finds \<open>apiport\<close> undefined.
\<close>

datatype template = Dir string

datatype fs_action =
    WriteFile string string
  | CopyFile template string
  | CopyTree template string
  | Mkdir string

definition createFiles :: "(bool \<Rightarrow> string) \<Rightarrow> (nat \<Rightarrow> nat) \<Rightarrow> options \<Rightarrow> fs_action list" where
  "createFiles webpackConfig rnd opts =
     [ WriteFile (appDir opts @ ''/.env'')
         (dotEnv rnd (appName opts) None (mongo opts) (server opts)),
       CopyFile (Dir ''files/gitignore.txt'') (appDir opts @ ''/.gitignore''),
       WriteFile (appDir opts @ ''/package.json'')
         (packageJson (appName opts) (server opts) (description opts) (author opts)
            (email opts) (Some (keywords opts))),
       CopyFile (Dir ''files/postcss.config.js'') (appDir opts @ ''/postcss.config.js''),
       CopyFile (Dir ''files/README.md'') (appDir opts @ ''/README.md'') ]
     @ (if server opts
        then [ CopyFile (Dir (''files/server'' @ (if mongo opts then ''-mongo'' else '''') @ ''.js''))
                 (appDir opts @ ''/server.js'') ]
        else [])
     @ [ WriteFile (appDir opts @ ''/webpack.config.js'') (webpackConfig (redux opts)) ]
     @ (if mongo opts then [ CopyTree (Dir ''./files/api'') (appDir opts) ] else [])
     @ (if express opts \<and> \<not> mongo opts
        then [ Mkdir (appDir opts @ ''/api''),
               CopyFile (Dir ''files/api/home.js'') (appDir opts @ ''/api'' @ ''/home.js'') ]
        else [])
     @ [ CopyTree (Dir ''./files/dist'') (appDir opts),
         CopyTree (Dir ''./files/src'') (appDir opts) ]
     @ (if redux opts \<or> router opts
        then [ CopyFile (Dir ''files/redux/entry.js'') (appDir opts @ ''/src/entry.js''),
               CopyTree (Dir ''files/redux/utils'') (appDir opts @ ''/src'') ]
             @ (if router opts
                then [ CopyFile (Dir ''files/redux/Redux1stApp.jsx'')
                         (appDir opts @ ''/src/components/App.jsx''),
                       CopyFile (Dir ''files/redux/Redux1stExample.jsx'')
                         (appDir opts @ ''/src/components/Example.jsx''),
                       CopyFile (Dir ''files/redux/NotFound.jsx'')
                         (appDir opts @ ''/src/components/NotFound.jsx''),
                       CopyFile (Dir ''files/redux/routerStore.js'') (appDir opts @ ''/src/store.js''),
                       CopyFile (Dir ''files/redux/routesMap.js'')
                         (appDir opts @ ''/src/routesMap.js'') ]
                else [ CopyFile (Dir ''files/redux/ReduxApp.jsx'')
                         (appDir opts @ ''/src/components/App.jsx''),
                       CopyFile (Dir ''files/redux/ReduxExample.jsx'')
                         (appDir opts @ ''/src/components/Example.jsx''),
                       CopyFile (Dir ''files/redux/store.js'') (appDir opts @ ''/src/store.js'') ])
        else [])"

section \<open>The earlier entry point\<close>

text \<open>
  The sources hold a second, earlier version of the entry point (its \<open>letsGo\<close> stops after
  printing the options). Its schema names the ports \<open>apiport\<close> and \<open>port\<close> and calls
  \<open>portValidator\<close> without a default port, so an invalid port is \<open>undefined\<close>. Its
  names carry the suffix \<open>_001\<close> here. Its \<open>parseArgs\<close> still derives \<open>title\<close> and
  \<open>description\<close>; the helper \<open>titleCase\<close> is not among the sources and is a parameter.
  The test \<open>!appName\<close>, which the source makes right after deriving the properties, comes
  first here, so that the derived title is a string; nothing is returned from before it.
  The value of \<open>checkDirExists(options)\<close> is discarded by this version. In sandbox mode
  it returns what \<open>createSandbox\<close> returns, not the options.
\<close>

record cla_options_001 =
  appName_001 :: "string option"
  version_001 :: bool
  help_001 :: bool
  offline_001 :: bool
  title_001 :: string
  sandbox_001 :: bool
  force_001 :: bool
  redux_001 :: bool
  router_001 :: bool
  author_001 :: string
  description_001 :: string
  email_001 :: string
  keywords_001 :: "string list"
  api_001 :: "string option"
  apiport :: "int option"
  express_001 :: bool
  mongo_001 :: bool
  port :: "int option"

record options_001 = cla_options_001 +
  online_001 :: bool
  server_001 :: bool
  appDir_001 :: string

datatype exit_001 = No_name | Sandbox_created | Bad_name_001 string

definition parseArgs_001 ::
  "(string \<Rightarrow> string) \<Rightarrow> env \<Rightarrow> cla_options_001 \<Rightarrow> exit_001 + options_001" where
  "parseArgs_001 titleCase e opts =
     (case appName_001 opts of
        None \<Rightarrow> Inl No_name
      | Some name \<Rightarrow>
          if name = [] then Inl No_name
          else
            let validation = validForNewPackages e (Some name);
                opts' = cla_options_001.extend
                          (opts\<lparr> redux_001 := redux_001 opts, router_001 := router_001 opts,
                                 offline_001 := (\<not> isOnline e \<or> offline_001 opts),
                                 api_001 := strip_api (api_001 opts),
                                 title_001 := (if title_001 opts \<noteq> [] then title_001 opts else name),
                                 description_001 :=
                                   (if description_001 opts \<noteq> [] then description_001 opts
                                    else if title_001 opts \<noteq> [] then title_001 opts
                                    else titleCase name) \<rparr>)
                          (options_001.fields (isOnline e) (express_001 opts \<or> mongo_001 opts)
                             (cwd e @ ''/'' @ name))
            in if sandbox_001 opts then Inl Sandbox_created
               else if \<not> validation then Inl (Bad_name_001 name)
               else Inr opts')"

section \<open>Properties\<close>

subsection \<open>Shared facts\<close>

lemma parseArgs_Inr_fields:
  assumes "parseArgs e opts = Inr r"
  shows "router r = router opts" "redux r = redux opts" "mongo r = mongo opts"
        "express r = express opts" "server r = (express opts \<or> mongo opts)"
        "title r = title opts" "description r = description opts" "appName r = appName opts"
        "devServerPort r = devServerPort opts" "apiPort r = apiPort opts"
  using assms
  by (auto simp: parseArgs_def Let_def cla_options.defs options.defs split: if_splits)

lemma guidedProcess_Inr_fields:
  assumes "guidedProcess e name replies = Inr r"
  shows "redux r = replies 0"
        "router r = (replies 0 \<and> replies 1)"
        "express r = (if replies 0 then replies 2 else replies 1)"
        "mongo r = (express r \<and> (if replies 0 then replies 3 else replies 2))"
        "server r = (express r \<or> mongo r)"
        "appName r = Some name"
  using assms
  by (auto simp: eval_nat_numeral guidedProcess_def promptYN_def Let_def cla_options.defs
        options.defs defaultOptions_def split: if_splits)

lemma guidedProcess_accepts:
  assumes "checkDirExists e" "validForNewPackages e (Some name)"
  shows "\<exists>r. guidedProcess e name replies = Inr r"
  using assms by (simp add: guidedProcess_def promptYN_def Let_def split: prod.splits)

lemma processUsersCommand_keeps:
  "redux (snd (processUsersCommand p)) = redux p"
  "router (snd (processUsersCommand p)) = router p"
  "express (snd (processUsersCommand p)) = express p"
  "mongo (snd (processUsersCommand p)) = mongo p"
  "server (snd (processUsersCommand p)) = server p"
  "title (snd (processUsersCommand p)) = title p"
  "description (snd (processUsersCommand p)) = description p"
  "appName (snd (processUsersCommand p)) = appName p"
  by (simp_all add: processUsersCommand_def)

lemma parseArgs_001_Inr_fields:
  assumes "parseArgs_001 titleCase e opts = Inr r"
  shows "\<exists>name. appName_001 opts = Some name \<and> name \<noteq> [] \<and> appName_001 r = Some name \<and>
           title_001 r = (if title_001 opts \<noteq> [] then title_001 opts else name) \<and>
           description_001 r = (if description_001 opts \<noteq> [] then description_001 opts
                                else if title_001 opts \<noteq> [] then title_001 opts
                                else titleCase name)"
  using assms
  by (auto simp: parseArgs_001_def Let_def cla_options_001.defs options_001.defs
        split: option.splits if_splits)

lemma hex_digit_in: "hex_digit d \<in> set ''0123456789abcdef''"
  unfolding hex_digit_def by (rule nth_mem) simp

lemma hex_digit_no_newline: "hex_digit d \<noteq> CHR 0x0A"
  using hex_digit_in [of d] by auto

lemma uuid_digit_no_newline: "uuid_digit a r \<noteq> CHR 0x0A"
  by (simp add: uuid_digit_def Let_def hex_digit_no_newline)

lemma replace_018_no_newline:
  "CHR 0x0A \<notin> set cs \<Longrightarrow> CHR 0x0A \<notin> set (replace_018 cs rnd i)"
proof (induction cs arbitrary: i)
  case Nil
  then show ?case by simp
next
  case (Cons c cs)
  then have "CHR 0x0A \<noteq> c" "CHR 0x0A \<notin> set (replace_018 cs rnd j)" for j
    by simp_all
  moreover have "CHR 0x0A \<noteq> uuid_digit c (rnd i)"
    using uuid_digit_no_newline [of c "rnd i"] by simp
  ultimately show ?case by simp
qed

lemma uuid_no_newline: "CHR 0x0A \<notin> set (uuid rnd)"
  unfolding uuid_def by (rule replace_018_no_newline) simp



lemma dotEnv_cases:
  "dotEnv rnd n p m s =
     (if s
      then ''PORT='' @ js_template (map_option Number_toString p) @ [CHR 0x0A]
           @ (if m
              then ''mongoURI=mongodb://localhost:27017/'' @ js_template n @ [CHR 0x0A]
                   @ ''mongoSession='' @ js_template n @ ''Sessions'' @ [CHR 0x0A]
                   @ ''secret='' @ uuid rnd @ [CHR 0x0A]
              else [])
      else [])
     @ ''appName='' @ js_template n @ [CHR 0x0A]"
  by (simp add: dotEnv_def Let_def js_and_def filter_Boolean_def)

text \<open>The environment file \<open>createFiles\<close> writes for \<open>myApp --mongo\<close>: the options have no
  property \<open>apiport\<close>, and the port line reads \<open>PORT=undefined\<close>.\<close>

lemma createFiles_env_port_undefined:
  "hd (createFiles wc rnd
        (cla_options.extend (defaultOptions\<lparr> appName := Some ''myApp'', mongo := True \<rparr>)
           (options.fields True True ''/home/dev/myApp'')))
   = WriteFile ''/home/dev/myApp/.env''
       (''PORT=undefined\<newline>mongoURI=mongodb://localhost:27017/myApp\<newline>mongoSession=myAppSessions\<newline>secret=''
        @ uuid rnd @ ''\<newline>appName=myApp\<newline>'')"
  by (simp add: createFiles_def dotEnv_cases defaultOptions_def cla_options.defs options.defs
        js_template_def)







lemma serialize_elems_Str: "serialize_elems ind (map Str ks) = map quote ks"
  by (induction ks) simp_all

lemma json_escape_plain:
  "c \<noteq> CHR 0x22 \<Longrightarrow> c \<noteq> CHR 0x5C \<Longrightarrow> 32 \<le> (of_char c :: nat) \<Longrightarrow> json_escape c = [c]"
  by (auto simp: json_escape_def)

lemma quote_plain:
  assumes "\<forall>c \<in> set t. c \<noteq> CHR 0x22 \<and> c \<noteq> CHR 0x5C \<and> 32 \<le> (of_char c :: nat)"
  shows "quote t = CHR 0x22 # t @ [CHR 0x22]"
proof -
  have "concat (map json_escape t) = t"
    using assms by (induction t) (simp_all add: json_escape_plain)
  then show ?thesis by (simp add: quote_def)
qed


lemma packageJson_text:
  "packageJson n s d a e k =
     ''{'' @ [CHR 0x0A]
     @ (case n of
          None \<Rightarrow> []
        | Some name \<Rightarrow> ''  '' @ quote ''name'' @ '': '' @ quote name @ '','' @ [CHR 0x0A])
     @ ''  '' @ quote ''version'' @ '': '' @ quote ''0.1.0'' @ '','' @ [CHR 0x0A]
     @ ''  '' @ quote ''description'' @ '': '' @ quote d @ '','' @ [CHR 0x0A]
     @ ''  '' @ quote ''keywords'' @ '': ''
       @ (if (case k of None \<Rightarrow> [] | Some ks \<Rightarrow> ks) = [] then ''[]''
          else ''['' @ [CHR 0x0A] @ ''    ''
               @ join ('','' @ [CHR 0x0A] @ ''    '')
                   (map quote (case k of None \<Rightarrow> [] | Some ks \<Rightarrow> ks))
               @ [CHR 0x0A] @ ''  ]'')
       @ '','' @ [CHR 0x0A]
     @ ''  '' @ quote ''author'' @ '': '' @ quote a @ '','' @ [CHR 0x0A]
     @ ''  '' @ quote ''email'' @ '': '' @ quote e @ '','' @ [CHR 0x0A]
     @ (if s
        then ''  '' @ quote ''main'' @ '': '' @ quote ''server.js'' @ '','' @ [CHR 0x0A]
             @ ''  '' @ quote ''scripts'' @ '': {'' @ [CHR 0x0A]
             @ ''    '' @ quote ''build'' @ '': ''
               @ quote ''cross-env NODE_ENV=production webpack --mode production --env.prod''
               @ '','' @ [CHR 0x0A]
             @ ''    '' @ quote ''build:dev'' @ '': ''
               @ quote ''cross-env NODE_ENV=development webpack --mode development --env.dev''
               @ '','' @ [CHR 0x0A]
             @ ''    '' @ quote ''local'' @ '': '' @ quote ''npm run server:api''
               @ '','' @ [CHR 0x0A]
             @ ''    '' @ quote ''server:dev'' @ '': ''
               @ quote ''webpack-dev-server --mode development --env.dev --open --progress''
               @ '','' @ [CHR 0x0A]
             @ ''    '' @ quote ''server:api'' @ '': '' @ quote ''nodemon server.js''
               @ '','' @ [CHR 0x0A]
             @ ''    '' @ quote ''start'' @ '': ''
               @ quote ''cross-env NODE_ENV=development npm-run-all --parallel server:*''
               @ [CHR 0x0A]
             @ ''  }''
        else ''  '' @ quote ''scripts'' @ '': {'' @ [CHR 0x0A]
             @ ''    '' @ quote ''build'' @ '': ''
               @ quote ''cross-env NODE_ENV=production webpack --mode production --env.prod''
               @ '','' @ [CHR 0x0A]
             @ ''    '' @ quote ''start'' @ '': ''
               @ quote ''cross-env NODE_ENV=development webpack-dev-server --mode development --env.dev --open --progress''
               @ [CHR 0x0A]
             @ ''  }'')
     @ [CHR 0x0A] @ ''}''"
  by (cases n; cases s)
     (simp_all add: packageJson_def packageJson_object_def JSON_stringify_object_def wrap_def
        js_of_string_def serialize_elems_Str)

subsection \<open>Router and redux\<close>

text \<open>
  C1, as the code has it. Every options object the wizard \<open>guidedProcess\<close> produces has
  \<open>router\<close> set only if \<open>redux\<close> is set, and not the reverse: a user who accepts redux
  and declines the router gets \<open>redux\<close> without \<open>router\<close>. On the flag path the final
  options, those of \<open>parseArgs\<close> passed through \<open>processUsersCommand\<close>, hold \<open>redux\<close>
  and \<open>router\<close> as they were parsed.
\<close>

theorem wizard_router_needs_redux:
  "(guidedProcess e name replies = Inr r \<longrightarrow> (router r \<longrightarrow> redux r)) \<and>
   (checkDirExists e \<and> validForNewPackages e (Some name) \<and> replies 0 \<and> \<not> replies 1 \<longrightarrow>
      (\<exists>r'. guidedProcess e name replies = Inr r' \<and> redux r' \<and> \<not> router r')) \<and>
   (parseArgs e opts = Inr p \<longrightarrow>
      router (snd (processUsersCommand p)) = router opts \<and>
      redux (snd (processUsersCommand p)) = redux opts)"
  using guidedProcess_Inr_fields(1,2) [of e name replies]
        parseArgs_Inr_fields(1,2) [of e opts p]
        guidedProcess_accepts [of e name replies]
  by (auto simp: processUsersCommand_keeps)

theorem wizard_router_needs_redux_witness:
  "\<not> isl (guidedProcess
       \<lparr> isOnline = True, cwd = ''/home/dev'', validForNewPackages = (=) (Some ''my-app''),
         checkDirExists = True \<rparr>
       ''my-app'' (\<lambda>i. i \<noteq> 2)) \<and>
   router (projr (guidedProcess
       \<lparr> isOnline = True, cwd = ''/home/dev'', validForNewPackages = (=) (Some ''my-app''),
         checkDirExists = True \<rparr>
       ''my-app'' (\<lambda>i. i \<noteq> 2))) \<and>
   redux (projr (guidedProcess
       \<lparr> isOnline = True, cwd = ''/home/dev'', validForNewPackages = (=) (Some ''my-app''),
         checkDirExists = True \<rparr>
       ''my-app'' (\<lambda>i. i \<noteq> 2))) \<and>
   redux (projr (guidedProcess
       \<lparr> isOnline = True, cwd = ''/home/dev'', validForNewPackages = (=) (Some ''my-app''),
         checkDirExists = True \<rparr>
       ''my-app'' (\<lambda>i. i = 0))) \<and>
   \<not> router (projr (guidedProcess
       \<lparr> isOnline = True, cwd = ''/home/dev'', validForNewPackages = (=) (Some ''my-app''),
         checkDirExists = True \<rparr>
       ''my-app'' (\<lambda>i. i = 0))) \<and>
   \<not> isl (parseArgs
       \<lparr> isOnline = True, cwd = ''/home/dev'', validForNewPackages = (=) (Some ''my-app''),
         checkDirExists = True \<rparr>
       (defaultOptions\<lparr> appName := Some ''my-app'', redux := True \<rparr>)) \<and>
   redux (snd (processUsersCommand (projr (parseArgs
       \<lparr> isOnline = True, cwd = ''/home/dev'', validForNewPackages = (=) (Some ''my-app''),
         checkDirExists = True \<rparr>
       (defaultOptions\<lparr> appName := Some ''my-app'', redux := True \<rparr>))))) \<and>
   \<not> router (snd (processUsersCommand (projr (parseArgs
       \<lparr> isOnline = True, cwd = ''/home/dev'', validForNewPackages = (=) (Some ''my-app''),
         checkDirExists = True \<rparr>
       (defaultOptions\<lparr> appName := Some ''my-app'', redux := True \<rparr>)))))"
  using wizard_router_needs_redux
    [of "\<lparr> isOnline = True, cwd = ''/home/dev'', validForNewPackages = (=) (Some ''my-app''),
           checkDirExists = True \<rparr>"
        "''my-app''" "\<lambda>i. i \<noteq> 2"
        "projr (guidedProcess
           \<lparr> isOnline = True, cwd = ''/home/dev'', validForNewPackages = (=) (Some ''my-app''),
             checkDirExists = True \<rparr>
           ''my-app'' (\<lambda>i. i \<noteq> 2))"
        "defaultOptions\<lparr> appName := Some ''my-app'', redux := True \<rparr>"
        "projr (parseArgs
           \<lparr> isOnline = True, cwd = ''/home/dev'', validForNewPackages = (=) (Some ''my-app''),
             checkDirExists = True \<rparr>
           (defaultOptions\<lparr> appName := Some ''my-app'', redux := True \<rparr>))"]
    wizard_router_needs_redux
    [of "\<lparr> isOnline = True, cwd = ''/home/dev'', validForNewPackages = (=) (Some ''my-app''),
           checkDirExists = True \<rparr>"
        "''my-app''" "\<lambda>i. i = 0"]
  by (simp add: guidedProcess_def promptYN_def parseArgs_def Let_def cla_options.defs
        options.defs defaultOptions_def)

text \<open>
  C1 as stated fails on the flag path: the command line \<open>my-app --router\<close> ends in final
  options with \<open>router\<close> set and \<open>redux\<close> not set.
\<close>

theorem parseArgs_router_without_redux:
  "\<not> isl (parseArgs
       \<lparr> isOnline = True, cwd = ''/home/dev'', validForNewPackages = (=) (Some ''my-app''),
         checkDirExists = True \<rparr>
       (defaultOptions\<lparr> appName := Some ''my-app'', router := True \<rparr>)) \<and>
   router (snd (processUsersCommand (projr (parseArgs
       \<lparr> isOnline = True, cwd = ''/home/dev'', validForNewPackages = (=) (Some ''my-app''),
         checkDirExists = True \<rparr>
       (defaultOptions\<lparr> appName := Some ''my-app'', router := True \<rparr>))))) \<and>
   \<not> redux (snd (processUsersCommand (projr (parseArgs
       \<lparr> isOnline = True, cwd = ''/home/dev'', validForNewPackages = (=) (Some ''my-app''),
         checkDirExists = True \<rparr>
       (defaultOptions\<lparr> appName := Some ''my-app'', router := True \<rparr>)))))"
  by (simp add: parseArgs_def processUsersCommand_def Let_def cla_options.defs options.defs
        defaultOptions_def)

subsection \<open>Mongo, express and the server flag\<close>

text \<open>
  C2, as the code has it. In every final options object, of the wizard or of the flag
  path, \<open>server\<close> is \<open>express\<close> or \<open>mongo\<close>, so \<open>mongo\<close> set implies \<open>server\<close> set.
  That \<open>mongo\<close> set implies \<open>express\<close> set holds for the wizard, which asks for mongo
  only after express was accepted; the flag path keeps both flags as they were parsed.
\<close>

theorem mongo_implies_server:
  "(guidedProcess e name replies = Inr r \<longrightarrow>
      (mongo r \<longrightarrow> express r) \<and> server r = (express r \<or> mongo r)) \<and>
   (parseArgs e opts = Inr p \<longrightarrow>
      (mongo (snd (processUsersCommand p)) \<longrightarrow> server (snd (processUsersCommand p))) \<and>
      server (snd (processUsersCommand p))
        = (express (snd (processUsersCommand p)) \<or> mongo (snd (processUsersCommand p))) \<and>
      mongo (snd (processUsersCommand p)) = mongo opts \<and>
      express (snd (processUsersCommand p)) = express opts)"
  using guidedProcess_Inr_fields(4,5) [of e name replies r]
        parseArgs_Inr_fields(3,4,5) [of e opts p]
  by (auto simp: processUsersCommand_keeps)

theorem mongo_implies_server_witness:
  "\<not> isl (guidedProcess
       \<lparr> isOnline = True, cwd = ''/home/dev'', validForNewPackages = (=) (Some ''my-app''),
         checkDirExists = True \<rparr>
       ''my-app'' (\<lambda>i. 0 < i)) \<and>
   mongo (projr (guidedProcess
       \<lparr> isOnline = True, cwd = ''/home/dev'', validForNewPackages = (=) (Some ''my-app''),
         checkDirExists = True \<rparr>
       ''my-app'' (\<lambda>i. 0 < i))) \<and>
   express (projr (guidedProcess
       \<lparr> isOnline = True, cwd = ''/home/dev'', validForNewPackages = (=) (Some ''my-app''),
         checkDirExists = True \<rparr>
       ''my-app'' (\<lambda>i. 0 < i))) \<and>
   \<not> isl (parseArgs
       \<lparr> isOnline = True, cwd = ''/home/dev'', validForNewPackages = (=) (Some ''my-app''),
         checkDirExists = True \<rparr>
       (defaultOptions\<lparr> appName := Some ''my-app'', mongo := True \<rparr>)) \<and>
   server (snd (processUsersCommand (projr (parseArgs
       \<lparr> isOnline = True, cwd = ''/home/dev'', validForNewPackages = (=) (Some ''my-app''),
         checkDirExists = True \<rparr>
       (defaultOptions\<lparr> appName := Some ''my-app'', mongo := True \<rparr>)))))"
  using mongo_implies_server
    [of "\<lparr> isOnline = True, cwd = ''/home/dev'', validForNewPackages = (=) (Some ''my-app''),
           checkDirExists = True \<rparr>"
        "''my-app''" "\<lambda>i. 0 < i"
        "projr (guidedProcess
           \<lparr> isOnline = True, cwd = ''/home/dev'', validForNewPackages = (=) (Some ''my-app''),
             checkDirExists = True \<rparr>
           ''my-app'' (\<lambda>i. 0 < i))"
        "defaultOptions\<lparr> appName := Some ''my-app'', mongo := True \<rparr>"
        "projr (parseArgs
           \<lparr> isOnline = True, cwd = ''/home/dev'', validForNewPackages = (=) (Some ''my-app''),
             checkDirExists = True \<rparr>
           (defaultOptions\<lparr> appName := Some ''my-app'', mongo := True \<rparr>))"]
  by (simp add: guidedProcess_def promptYN_def parseArgs_def Let_def cla_options.defs
        options.defs defaultOptions_def)

text \<open>
  C2 as stated fails on the flag path: the command line \<open>my-app --mongo\<close> ends in final
  options with \<open>mongo\<close> set and \<open>express\<close> not set (and \<open>server\<close> set).
\<close>

theorem parseArgs_mongo_without_express:
  "\<not> isl (parseArgs
       \<lparr> isOnline = True, cwd = ''/home/dev'', validForNewPackages = (=) (Some ''my-app''),
         checkDirExists = True \<rparr>
       (defaultOptions\<lparr> appName := Some ''my-app'', mongo := True \<rparr>)) \<and>
   mongo (snd (processUsersCommand (projr (parseArgs
       \<lparr> isOnline = True, cwd = ''/home/dev'', validForNewPackages = (=) (Some ''my-app''),
         checkDirExists = True \<rparr>
       (defaultOptions\<lparr> appName := Some ''my-app'', mongo := True \<rparr>))))) \<and>
   \<not> express (snd (processUsersCommand (projr (parseArgs
       \<lparr> isOnline = True, cwd = ''/home/dev'', validForNewPackages = (=) (Some ''my-app''),
         checkDirExists = True \<rparr>
       (defaultOptions\<lparr> appName := Some ''my-app'', mongo := True \<rparr>)))))"
  by (simp add: parseArgs_def processUsersCommand_def Let_def cla_options.defs options.defs
        defaultOptions_def)


subsection \<open>Port collision\<close>

text \<open>
  C3. For every resolved-options input to \<open>processUsersCommand\<close>: when express or mongo is
  set and \<open>devServerPort\<close> equals \<open>apiPort\<close>, the options returned are the input with
  \<open>devServerPort\<close> set to \<open>apiPort + 1\<close>; in every other case the options are returned
  unchanged. The function is not recursive: the increment happens once, and the port
  returned is the input port or its successor.
\<close>

theorem processUsersCommand_devServerPort:
  "((express opts \<or> mongo opts) \<and> devServerPort opts = apiPort opts \<longrightarrow>
      snd (processUsersCommand opts) = opts\<lparr> devServerPort := apiPort opts + 1 \<rparr>) \<and>
   (\<not> ((express opts \<or> mongo opts) \<and> devServerPort opts = apiPort opts) \<longrightarrow>
      snd (processUsersCommand opts) = opts) \<and>
   devServerPort (snd (processUsersCommand opts)) \<in> {devServerPort opts, devServerPort opts + 1}"
  by (simp add: processUsersCommand_def)

theorem processUsersCommand_devServerPort_witness:
  "devServerPort (snd (processUsersCommand
      (cla_options.extend
         (defaultOptions\<lparr> appName := Some ''myApp'', express := True,
                            devServerPort := 3000, apiPort := 3000 \<rparr>)
         (options.fields True True ''/home/dev/myApp'')))) = 3001 \<and>
   devServerPort (snd (processUsersCommand
      (cla_options.extend
         (defaultOptions\<lparr> appName := Some ''myApp'', express := True \<rparr>)
         (options.fields True True ''/home/dev/myApp'')))) = 8080"
  using processUsersCommand_devServerPort
          [of "cla_options.extend
                 (defaultOptions\<lparr> appName := Some ''myApp'', express := True,
                                    devServerPort := 3000, apiPort := 3000 \<rparr>)
                 (options.fields True True ''/home/dev/myApp'')"]
        processUsersCommand_devServerPort
          [of "cla_options.extend
                 (defaultOptions\<lparr> appName := Some ''myApp'', express := True \<rparr>)
                 (options.fields True True ''/home/dev/myApp'')"]
  by (simp add: defaultOptions_def cla_options.defs options.defs)

subsection \<open>Port flags\<close>

text \<open>
  C5. For every token given to \<open>--devServerPort\<close> or \<open>--apiPort\<close>: if its numeric value
  is an integer \<open>n\<close> with \<open>1 \<le> n \<le> 65535\<close>, the port the flag resolves to is \<open>n\<close> and
  nothing is printed; if its numeric value is no such integer, the port is the flag's default
  (8080 for \<open>devServerPort\<close>, 3000 for \<open>apiPort\<close>) and exactly one warning is printed.
\<close>

theorem port_flags_resolve:
  "(toNumber val = Finite (of_int n) \<and> 1 \<le> n \<and> n \<le> 65535 \<longrightarrow>
      devServerPort_type toNumber val = ([], n) \<and> apiPort_type toNumber val = ([], n)) \<and>
   ((\<forall>m. 1 \<le> m \<and> m \<le> 65535 \<longrightarrow> toNumber val \<noteq> Finite (of_int m)) \<longrightarrow>
      snd (devServerPort_type toNumber val) = 8080 \<and>
      snd (apiPort_type toNumber val) = 3000 \<and>
      fst (devServerPort_type toNumber val)
        \<in> {[Invalid_port val 8080], [Port_out_of_range (toNumber val) 8080]} \<and>
      fst (apiPort_type toNumber val)
        \<in> {[Invalid_port val 3000], [Port_out_of_range (toNumber val) 3000]})"
proof (intro conjI impI)
  assume "toNumber val = Finite (of_int n) \<and> 1 \<le> n \<and> n \<le> 65535"
  then show "devServerPort_type toNumber val = ([], n)" "apiPort_type toNumber val = ([], n)"
    by (simp_all add: devServerPort_type_def apiPort_type_def portValidator_def
          Number_isInteger_def js_less_1_def js_greater_65535_def int_of_js_number_def)
next
  assume none: "\<forall>m. 1 \<le> m \<and> m \<le> 65535 \<longrightarrow> toNumber val \<noteq> Finite (of_int m)"
  have range: "js_less_1 (toNumber val) \<or> js_greater_65535 (toNumber val)"
    if "Number_isInteger (toNumber val)"
  proof -
    from that obtain k where k: "toNumber val = Finite (of_int k)"
      by (auto simp: Number_isInteger_def split: js_number.splits)
    with none have "\<not> (1 \<le> k \<and> k \<le> 65535)" by blast
    then show ?thesis using k by (auto simp: js_less_1_def js_greater_65535_def)
  qed
  show "snd (devServerPort_type toNumber val) = 8080"
       "snd (apiPort_type toNumber val) = 3000"
       "fst (devServerPort_type toNumber val)
          \<in> {[Invalid_port val 8080], [Port_out_of_range (toNumber val) 8080]}"
       "fst (apiPort_type toNumber val)
          \<in> {[Invalid_port val 3000], [Port_out_of_range (toNumber val) 3000]}"
    using range
    by (auto simp: devServerPort_type_def apiPort_type_def portValidator_def Let_def)
qed

theorem port_flags_resolve_witness:
  "devServerPort_type (\<lambda>s. if s = ''3001'' then Finite 3001 else NaN) ''3001'' = ([], 3001) \<and>
   apiPort_type (\<lambda>s. if s = ''3001'' then Finite 3001 else NaN) ''3001'' = ([], 3001) \<and>
   devServerPort_type (\<lambda>s. if s = ''3001'' then Finite 3001 else NaN) ''abc''
     = ([Invalid_port ''abc'' 8080], 8080) \<and>
   apiPort_type (\<lambda>s. if s = ''3001'' then Finite 3001 else NaN) ''abc''
     = ([Invalid_port ''abc'' 3000], 3000)"
  using port_flags_resolve [of "\<lambda>s. if s = ''3001'' then Finite 3001 else NaN" "''3001''" 3001]
        port_flags_resolve [of "\<lambda>s. if s = ''3001'' then Finite 3001 else NaN" "''abc''" 0]
  by (simp add: devServerPort_type_def apiPort_type_def portValidator_def Number_isInteger_def
        js_less_1_def js_greater_65535_def int_of_js_number_def)

subsection \<open>Title and description\<close>

text \<open>
  C6, as the code has it. On the flag path the final options hold \<open>title\<close> and
  \<open>description\<close> as they were parsed; for a flag that was not supplied that is the
  default of the schema, the empty string. Only the earlier entry point derives them: its
  title is \<open>appName\<close> when no title was supplied, and its description, when none was
  supplied, is the supplied title, or \<open>titleCase(appName)\<close> when no title was supplied
  either.
\<close>

theorem title_description_resolution:
  "(parseArgs e opts = Inr r \<longrightarrow>
      title (snd (processUsersCommand r)) = title opts \<and>
      description (snd (processUsersCommand r)) = description opts) \<and>
   title defaultOptions = [] \<and> description defaultOptions = [] \<and>
   (parseArgs_001 titleCase e opts1 = Inr r1 \<longrightarrow>
      (title_001 opts1 = [] \<longrightarrow> appName_001 r1 = Some (title_001 r1)) \<and>
      (description_001 opts1 = [] \<and> title_001 opts1 \<noteq> [] \<longrightarrow>
         description_001 r1 = title_001 r1) \<and>
      (description_001 opts1 = [] \<and> title_001 opts1 = [] \<longrightarrow>
         description_001 r1 = titleCase (title_001 r1)))"
  using parseArgs_Inr_fields(6,7) [of e opts r]
        parseArgs_001_Inr_fields [of titleCase e opts1 r1]
  by (auto simp: defaultOptions_def processUsersCommand_keeps)

theorem title_description_resolution_witness:
  "\<not> isl (parseArgs
       \<lparr> isOnline = True, cwd = ''/home/dev'', validForNewPackages = (=) (Some ''my-app''),
         checkDirExists = True \<rparr>
       (defaultOptions\<lparr> appName := Some ''my-app'', description := ''A new app'' \<rparr>)) \<and>
   title (snd (processUsersCommand (projr (parseArgs
       \<lparr> isOnline = True, cwd = ''/home/dev'', validForNewPackages = (=) (Some ''my-app''),
         checkDirExists = True \<rparr>
       (defaultOptions\<lparr> appName := Some ''my-app'', description := ''A new app'' \<rparr>))))) = [] \<and>
   description (snd (processUsersCommand (projr (parseArgs
       \<lparr> isOnline = True, cwd = ''/home/dev'', validForNewPackages = (=) (Some ''my-app''),
         checkDirExists = True \<rparr>
       (defaultOptions\<lparr> appName := Some ''my-app'', description := ''A new app'' \<rparr>))))) = ''A new app'' \<and>
   \<not> isl (parseArgs_001 (map (\<lambda>c. if c = CHR ''-'' then CHR '' '' else c))
       \<lparr> isOnline = True, cwd = ''/home/dev'', validForNewPackages = (=) (Some ''my-app''),
         checkDirExists = True \<rparr>
       \<lparr> appName_001 = Some ''my-app'', version_001 = False, help_001 = False,
         offline_001 = False, title_001 = [], sandbox_001 = False, force_001 = False,
         redux_001 = False, router_001 = False, author_001 = [], description_001 = [],
         email_001 = [], keywords_001 = [], api_001 = None, apiport = Some 8080,
         express_001 = False, mongo_001 = False, port = Some 3000 \<rparr>) \<and>
   title_001 (projr (parseArgs_001 (map (\<lambda>c. if c = CHR ''-'' then CHR '' '' else c))
       \<lparr> isOnline = True, cwd = ''/home/dev'', validForNewPackages = (=) (Some ''my-app''),
         checkDirExists = True \<rparr>
       \<lparr> appName_001 = Some ''my-app'', version_001 = False, help_001 = False,
         offline_001 = False, title_001 = [], sandbox_001 = False, force_001 = False,
         redux_001 = False, router_001 = False, author_001 = [], description_001 = [],
         email_001 = [], keywords_001 = [], api_001 = None, apiport = Some 8080,
         express_001 = False, mongo_001 = False, port = Some 3000 \<rparr>)) = ''my-app'' \<and>
   description_001 (projr (parseArgs_001 (map (\<lambda>c. if c = CHR ''-'' then CHR '' '' else c))
       \<lparr> isOnline = True, cwd = ''/home/dev'', validForNewPackages = (=) (Some ''my-app''),
         checkDirExists = True \<rparr>
       \<lparr> appName_001 = Some ''my-app'', version_001 = False, help_001 = False,
         offline_001 = False, title_001 = [], sandbox_001 = False, force_001 = False,
         redux_001 = False, router_001 = False, author_001 = [], description_001 = [],
         email_001 = [], keywords_001 = [], api_001 = None, apiport = Some 8080,
         express_001 = False, mongo_001 = False, port = Some 3000 \<rparr>)) = ''my app'' \<and>
   \<not> isl (parseArgs_001 (map (\<lambda>c. if c = CHR ''-'' then CHR '' '' else c))
       \<lparr> isOnline = True, cwd = ''/home/dev'', validForNewPackages = (=) (Some ''my-app''),
         checkDirExists = True \<rparr>
       \<lparr> appName_001 = Some ''my-app'', version_001 = False, help_001 = False,
         offline_001 = False, title_001 = ''My App'', sandbox_001 = False, force_001 = False,
         redux_001 = False, router_001 = False, author_001 = [], description_001 = [],
         email_001 = [], keywords_001 = [], api_001 = None, apiport = Some 8080,
         express_001 = False, mongo_001 = False, port = Some 3000 \<rparr>) \<and>
   title_001 (projr (parseArgs_001 (map (\<lambda>c. if c = CHR ''-'' then CHR '' '' else c))
       \<lparr> isOnline = True, cwd = ''/home/dev'', validForNewPackages = (=) (Some ''my-app''),
         checkDirExists = True \<rparr>
       \<lparr> appName_001 = Some ''my-app'', version_001 = False, help_001 = False,
         offline_001 = False, title_001 = ''My App'', sandbox_001 = False, force_001 = False,
         redux_001 = False, router_001 = False, author_001 = [], description_001 = [],
         email_001 = [], keywords_001 = [], api_001 = None, apiport = Some 8080,
         express_001 = False, mongo_001 = False, port = Some 3000 \<rparr>)) = ''My App'' \<and>
   description_001 (projr (parseArgs_001 (map (\<lambda>c. if c = CHR ''-'' then CHR '' '' else c))
       \<lparr> isOnline = True, cwd = ''/home/dev'', validForNewPackages = (=) (Some ''my-app''),
         checkDirExists = True \<rparr>
       \<lparr> appName_001 = Some ''my-app'', version_001 = False, help_001 = False,
         offline_001 = False, title_001 = ''My App'', sandbox_001 = False, force_001 = False,
         redux_001 = False, router_001 = False, author_001 = [], description_001 = [],
         email_001 = [], keywords_001 = [], api_001 = None, apiport = Some 8080,
         express_001 = False, mongo_001 = False, port = Some 3000 \<rparr>)) = ''My App''"
  using title_description_resolution
    [of "\<lparr> isOnline = True, cwd = ''/home/dev'', validForNewPackages = (=) (Some ''my-app''),
         checkDirExists = True \<rparr>"
        "defaultOptions\<lparr> appName := Some ''my-app'', description := ''A new app'' \<rparr>"
        "projr (parseArgs
       \<lparr> isOnline = True, cwd = ''/home/dev'', validForNewPackages = (=) (Some ''my-app''),
         checkDirExists = True \<rparr>
       (defaultOptions\<lparr> appName := Some ''my-app'', description := ''A new app'' \<rparr>))"
        "map (\<lambda>c. if c = CHR ''-'' then CHR '' '' else c)"
        "\<lparr> appName_001 = Some ''my-app'', version_001 = False, help_001 = False,
         offline_001 = False, title_001 = [], sandbox_001 = False, force_001 = False,
         redux_001 = False, router_001 = False, author_001 = [], description_001 = [],
         email_001 = [], keywords_001 = [], api_001 = None, apiport = Some 8080,
         express_001 = False, mongo_001 = False, port = Some 3000 \<rparr>"
        "projr (parseArgs_001 (map (\<lambda>c. if c = CHR ''-'' then CHR '' '' else c))
       \<lparr> isOnline = True, cwd = ''/home/dev'', validForNewPackages = (=) (Some ''my-app''),
         checkDirExists = True \<rparr>
       \<lparr> appName_001 = Some ''my-app'', version_001 = False, help_001 = False,
         offline_001 = False, title_001 = [], sandbox_001 = False, force_001 = False,
         redux_001 = False, router_001 = False, author_001 = [], description_001 = [],
         email_001 = [], keywords_001 = [], api_001 = None, apiport = Some 8080,
         express_001 = False, mongo_001 = False, port = Some 3000 \<rparr>)"]
    title_description_resolution
    [of "\<lparr> isOnline = True, cwd = ''/home/dev'', validForNewPackages = (=) (Some ''my-app''),
         checkDirExists = True \<rparr>"
        "defaultOptions\<lparr> appName := Some ''my-app'', description := ''A new app'' \<rparr>"
        "projr (parseArgs
       \<lparr> isOnline = True, cwd = ''/home/dev'', validForNewPackages = (=) (Some ''my-app''),
         checkDirExists = True \<rparr>
       (defaultOptions\<lparr> appName := Some ''my-app'', description := ''A new app'' \<rparr>))"
        "map (\<lambda>c. if c = CHR ''-'' then CHR '' '' else c)"
        "\<lparr> appName_001 = Some ''my-app'', version_001 = False, help_001 = False,
         offline_001 = False, title_001 = ''My App'', sandbox_001 = False, force_001 = False,
         redux_001 = False, router_001 = False, author_001 = [], description_001 = [],
         email_001 = [], keywords_001 = [], api_001 = None, apiport = Some 8080,
         express_001 = False, mongo_001 = False, port = Some 3000 \<rparr>"
        "projr (parseArgs_001 (map (\<lambda>c. if c = CHR ''-'' then CHR '' '' else c))
       \<lparr> isOnline = True, cwd = ''/home/dev'', validForNewPackages = (=) (Some ''my-app''),
         checkDirExists = True \<rparr>
       \<lparr> appName_001 = Some ''my-app'', version_001 = False, help_001 = False,
         offline_001 = False, title_001 = ''My App'', sandbox_001 = False, force_001 = False,
         redux_001 = False, router_001 = False, author_001 = [], description_001 = [],
         email_001 = [], keywords_001 = [], api_001 = None, apiport = Some 8080,
         express_001 = False, mongo_001 = False, port = Some 3000 \<rparr>)"]
  by (simp add: parseArgs_def parseArgs_001_def processUsersCommand_def Let_def
        cla_options.defs options.defs cla_options_001.defs options_001.defs defaultOptions_def)

text \<open>
  C6 as stated fails on the flag path. The command line \<open>my-app\<close> ends in an empty title, not
  in the name; the command line \<open>my-app --title "My App"\<close> ends in an empty description, not
  in the title.
\<close>

theorem parseArgs_title_not_appName:
  "\<not> isl (parseArgs
       \<lparr> isOnline = True, cwd = ''/home/dev'', validForNewPackages = (=) (Some ''my-app''),
         checkDirExists = True \<rparr>
       (defaultOptions\<lparr> appName := Some ''my-app'' \<rparr>)) \<and>
   appName (snd (processUsersCommand (projr (parseArgs
       \<lparr> isOnline = True, cwd = ''/home/dev'', validForNewPackages = (=) (Some ''my-app''),
         checkDirExists = True \<rparr>
       (defaultOptions\<lparr> appName := Some ''my-app'' \<rparr>))))) = Some ''my-app'' \<and>
   title (snd (processUsersCommand (projr (parseArgs
       \<lparr> isOnline = True, cwd = ''/home/dev'', validForNewPackages = (=) (Some ''my-app''),
         checkDirExists = True \<rparr>
       (defaultOptions\<lparr> appName := Some ''my-app'' \<rparr>))))) = [] \<and>
   \<not> isl (parseArgs
       \<lparr> isOnline = True, cwd = ''/home/dev'', validForNewPackages = (=) (Some ''my-app''),
         checkDirExists = True \<rparr>
       (defaultOptions\<lparr> appName := Some ''my-app'', title := ''My App'' \<rparr>)) \<and>
   title (snd (processUsersCommand (projr (parseArgs
       \<lparr> isOnline = True, cwd = ''/home/dev'', validForNewPackages = (=) (Some ''my-app''),
         checkDirExists = True \<rparr>
       (defaultOptions\<lparr> appName := Some ''my-app'', title := ''My App'' \<rparr>))))) = ''My App'' \<and>
   description (snd (processUsersCommand (projr (parseArgs
       \<lparr> isOnline = True, cwd = ''/home/dev'', validForNewPackages = (=) (Some ''my-app''),
         checkDirExists = True \<rparr>
       (defaultOptions\<lparr> appName := Some ''my-app'', title := ''My App'' \<rparr>))))) = []"
  by (simp add: parseArgs_def processUsersCommand_def Let_def cla_options.defs options.defs
        defaultOptions_def)

subsection \<open>Sandbox mode and the name check\<close>

text \<open>
  C10. When \<open>sandbox\<close> is set, \<open>parseArgs\<close> never ends with the name-validation error,
  whatever the name and whatever the validator says of it: its result does not depend on the
  validator at all, and once the version, help and directory checks are passed it returns
  the resolved options, with \<open>sandbox\<close> set and the name as given.
\<close>

theorem sandbox_skips_name_validation:
  "sandbox opts \<longrightarrow>
     (\<forall>n. parseArgs e opts \<noteq> Inl (Bad_name n)) \<and>
     parseArgs (e\<lparr> validForNewPackages := v \<rparr>) opts = parseArgs e opts \<and>
     (\<not> version opts \<and> \<not> help opts \<and> checkDirExists e \<longrightarrow>
        (\<exists>r. parseArgs e opts = Inr r \<and> sandbox r \<and> appName r = appName opts))"
  by (auto simp: parseArgs_def Let_def cla_options.defs options.defs)

theorem sandbox_skips_name_validation_witness:
  "\<not> isl (parseArgs
       \<lparr> isOnline = True, cwd = ''/home/dev'', validForNewPackages = (=) (Some ''my-app''),
         checkDirExists = True \<rparr>
       (defaultOptions\<lparr> appName := Some ''My App'', sandbox := True \<rparr>)) \<and>
   appName (projr (parseArgs
       \<lparr> isOnline = True, cwd = ''/home/dev'', validForNewPackages = (=) (Some ''my-app''),
         checkDirExists = True \<rparr>
       (defaultOptions\<lparr> appName := Some ''My App'', sandbox := True \<rparr>))) = Some ''My App'' \<and>
   parseArgs
       \<lparr> isOnline = True, cwd = ''/home/dev'', validForNewPackages = (=) (Some ''my-app''),
         checkDirExists = True \<rparr>
       (defaultOptions\<lparr> appName := Some ''My App'' \<rparr>) = Inl (Bad_name (Some ''My App''))"
  using sandbox_skips_name_validation
    [of "defaultOptions\<lparr> appName := Some ''My App'', sandbox := True \<rparr>"
        "\<lparr> isOnline = True, cwd = ''/home/dev'', validForNewPackages = (=) (Some ''my-app''),
           checkDirExists = True \<rparr>"
        "(=) (Some ''my-app'')"]
  by (auto simp: defaultOptions_def parseArgs_def Let_def cla_options.defs options.defs)

subsection \<open>The environment file\<close>




subsection \<open>The redux and router variants\<close>

text \<open>
  C7. For every resolved options with \<open>redux\<close> set and \<open>router\<close> not set,
  \<open>createFiles\<close> copies the plain redux app shell, example component and store to
  \<open>src/components/App.jsx\<close>, \<open>src/components/Example.jsx\<close> and \<open>src/store.js\<close>, and
  copies none of the five router templates anywhere. With \<open>router\<close> set it copies the
  router-aware app shell, example component, not-found component, store and route map, and
  none of the three plain templates.
\<close>

theorem createFiles_redux_variants:
  "(redux opts \<and> \<not> router opts \<longrightarrow>
      CopyFile (Dir ''files/redux/ReduxApp.jsx'') (appDir opts @ ''/src/components/App.jsx'')
        \<in> set (createFiles wc rnd opts) \<and>
      CopyFile (Dir ''files/redux/ReduxExample.jsx'') (appDir opts @ ''/src/components/Example.jsx'')
        \<in> set (createFiles wc rnd opts) \<and>
      CopyFile (Dir ''files/redux/store.js'') (appDir opts @ ''/src/store.js'')
        \<in> set (createFiles wc rnd opts) \<and>
      (\<forall>t \<in> {''files/redux/Redux1stApp.jsx'', ''files/redux/Redux1stExample.jsx'',
               ''files/redux/NotFound.jsx'', ''files/redux/routerStore.js'',
               ''files/redux/routesMap.js''}.
         \<forall>dst. CopyFile (Dir t) dst \<notin> set (createFiles wc rnd opts))) \<and>
   (router opts \<longrightarrow>
      CopyFile (Dir ''files/redux/Redux1stApp.jsx'') (appDir opts @ ''/src/components/App.jsx'')
        \<in> set (createFiles wc rnd opts) \<and>
      CopyFile (Dir ''files/redux/Redux1stExample.jsx'') (appDir opts @ ''/src/components/Example.jsx'')
        \<in> set (createFiles wc rnd opts) \<and>
      CopyFile (Dir ''files/redux/NotFound.jsx'') (appDir opts @ ''/src/components/NotFound.jsx'')
        \<in> set (createFiles wc rnd opts) \<and>
      CopyFile (Dir ''files/redux/routerStore.js'') (appDir opts @ ''/src/store.js'')
        \<in> set (createFiles wc rnd opts) \<and>
      CopyFile (Dir ''files/redux/routesMap.js'') (appDir opts @ ''/src/routesMap.js'')
        \<in> set (createFiles wc rnd opts) \<and>
      (\<forall>t \<in> {''files/redux/ReduxApp.jsx'', ''files/redux/ReduxExample.jsx'',
               ''files/redux/store.js''}.
         \<forall>dst. CopyFile (Dir t) dst \<notin> set (createFiles wc rnd opts)))"
  by (simp add: createFiles_def)

theorem createFiles_redux_variants_witness:
  "CopyFile (Dir ''files/redux/store.js'') ''/home/dev/myApp/src/store.js''
     \<in> set (createFiles (\<lambda>b. if b then ''redux'' else ''plain'') Suc
          (cla_options.extend (defaultOptions\<lparr> appName := Some ''myApp'', redux := True \<rparr>)
             (options.fields True False ''/home/dev/myApp''))) \<and>
   CopyFile (Dir ''files/redux/routerStore.js'') ''/home/dev/myApp/src/store.js''
     \<notin> set (createFiles (\<lambda>b. if b then ''redux'' else ''plain'') Suc
          (cla_options.extend (defaultOptions\<lparr> appName := Some ''myApp'', redux := True \<rparr>)
             (options.fields True False ''/home/dev/myApp''))) \<and>
   CopyFile (Dir ''files/redux/routerStore.js'') ''/home/dev/myApp/src/store.js''
     \<in> set (createFiles (\<lambda>b. if b then ''redux'' else ''plain'') Suc
          (cla_options.extend
             (defaultOptions\<lparr> appName := Some ''myApp'', redux := True, router := True \<rparr>)
             (options.fields True False ''/home/dev/myApp''))) \<and>
   CopyFile (Dir ''files/redux/store.js'') ''/home/dev/myApp/src/store.js''
     \<notin> set (createFiles (\<lambda>b. if b then ''redux'' else ''plain'') Suc
          (cla_options.extend
             (defaultOptions\<lparr> appName := Some ''myApp'', redux := True, router := True \<rparr>)
             (options.fields True False ''/home/dev/myApp'')))"
  using createFiles_redux_variants
    [of "cla_options.extend (defaultOptions\<lparr> appName := Some ''myApp'', redux := True \<rparr>)
           (options.fields True False ''/home/dev/myApp'')"
        "\<lambda>b. if b then ''redux'' else ''plain''" Suc]
    createFiles_redux_variants
    [of "cla_options.extend
           (defaultOptions\<lparr> appName := Some ''myApp'', redux := True, router := True \<rparr>)
           (options.fields True False ''/home/dev/myApp'')"
        "\<lambda>b. if b then ''redux'' else ''plain''" Suc]
  by (simp add: defaultOptions_def cla_options.defs options.defs)

subsection \<open>The manifest\<close>

text \<open>
  C8. For every input, \<open>packageJson\<close> returns the text of one JSON document, given here
  character for character: its first property is \<open>name\<close> with the value \<open>appName\<close>, its
  second \<open>version\<close> with the value \<open>0.1.0\<close>, then \<open>description\<close>, \<open>keywords\<close>,
  \<open>author\<close> and \<open>email\<close>. What follows depends on the \<open>server\<close> flag alone. With
  \<open>server\<close> set it is the entry point \<open>main\<close>, \<open>server.js\<close>, and a \<open>scripts\<close> table
  with \<open>build\<close>, \<open>build:dev\<close>, \<open>local\<close>, \<open>server:dev\<close>, \<open>server:api\<close> and
  \<open>start\<close>; without it there is no \<open>main\<close>, and the \<open>scripts\<close> table holds \<open>build\<close>
  and \<open>start\<close> only. A string without double quote, backslash and control character is
  printed between double quotes as it is. The same holds of the object the text is printed
  from: no property occurs twice in it.
\<close>

theorem packageJson_document:
  "packageJson n s d a e k =
      ''{'' @ [CHR 0x0A]
      @ (case n of
           None \<Rightarrow> []
         | Some name \<Rightarrow> ''  '' @ quote ''name'' @ '': '' @ quote name @ '','' @ [CHR 0x0A])
      @ ''  '' @ quote ''version'' @ '': '' @ quote ''0.1.0'' @ '','' @ [CHR 0x0A]
      @ ''  '' @ quote ''description'' @ '': '' @ quote d @ '','' @ [CHR 0x0A]
      @ ''  '' @ quote ''keywords'' @ '': ''
        @ (if (case k of None \<Rightarrow> [] | Some ks \<Rightarrow> ks) = [] then ''[]''
           else ''['' @ [CHR 0x0A] @ ''    ''
                @ join ('','' @ [CHR 0x0A] @ ''    '')
                    (map quote (case k of None \<Rightarrow> [] | Some ks \<Rightarrow> ks))
                @ [CHR 0x0A] @ ''  ]'')
        @ '','' @ [CHR 0x0A]
      @ ''  '' @ quote ''author'' @ '': '' @ quote a @ '','' @ [CHR 0x0A]
      @ ''  '' @ quote ''email'' @ '': '' @ quote e @ '','' @ [CHR 0x0A]
      @ (if s
         then ''  '' @ quote ''main'' @ '': '' @ quote ''server.js'' @ '','' @ [CHR 0x0A]
              @ ''  '' @ quote ''scripts'' @ '': {'' @ [CHR 0x0A]
              @ ''    '' @ quote ''build'' @ '': ''
                @ quote ''cross-env NODE_ENV=production webpack --mode production --env.prod''
                @ '','' @ [CHR 0x0A]
              @ ''    '' @ quote ''build:dev'' @ '': ''
                @ quote ''cross-env NODE_ENV=development webpack --mode development --env.dev''
                @ '','' @ [CHR 0x0A]
              @ ''    '' @ quote ''local'' @ '': '' @ quote ''npm run server:api''
                @ '','' @ [CHR 0x0A]
              @ ''    '' @ quote ''server:dev'' @ '': ''
                @ quote ''webpack-dev-server --mode development --env.dev --open --progress''
                @ '','' @ [CHR 0x0A]
              @ ''    '' @ quote ''server:api'' @ '': '' @ quote ''nodemon server.js''
                @ '','' @ [CHR 0x0A]
              @ ''    '' @ quote ''start'' @ '': ''
                @ quote ''cross-env NODE_ENV=development npm-run-all --parallel server:*''
                @ [CHR 0x0A]
              @ ''  }''
         else ''  '' @ quote ''scripts'' @ '': {'' @ [CHR 0x0A]
              @ ''    '' @ quote ''build'' @ '': ''
                @ quote ''cross-env NODE_ENV=production webpack --mode production --env.prod''
                @ '','' @ [CHR 0x0A]
              @ ''    '' @ quote ''start'' @ '': ''
                @ quote ''cross-env NODE_ENV=development webpack-dev-server --mode development --env.dev --open --progress''
                @ [CHR 0x0A]
              @ ''  }'')
      @ [CHR 0x0A] @ ''}'' \<and>
   ((\<forall>c \<in> set t. c \<noteq> CHR 0x22 \<and> c \<noteq> CHR 0x5C \<and> 32 \<le> (of_char c :: nat)) \<longrightarrow>
      quote t = CHR 0x22 # t @ [CHR 0x22]) \<and>
   map_of (packageJson_object n s d a e k) ''name'' = Some (js_of_string n) \<and>
   map_of (packageJson_object n s d a e k) ''version'' = Some (Str ''0.1.0'') \<and>
   map_of (packageJson_object n s d a e k) ''scripts''
     = map_of (packageJson_object n' s d' a' e' k') ''scripts'' \<and>
   (s \<longrightarrow>
      map_of (packageJson_object n s d a e k) ''main'' = Some (Str ''server.js'') \<and>
      (\<exists>scripts. map_of (packageJson_object n s d a e k) ''scripts'' = Some (Obj scripts) \<and>
         map fst scripts
           = [''build'', ''build:dev'', ''local'', ''server:dev'', ''server:api'', ''start''])) \<and>
   (\<not> s \<longrightarrow>
      map_of (packageJson_object n s d a e k) ''main'' = None \<and>
      (\<exists>scripts. map_of (packageJson_object n s d a e k) ''scripts'' = Some (Obj scripts) \<and>
         map fst scripts = [''build'', ''start''])) \<and>
   distinct (map fst (packageJson_object n s d a e k)) \<and>
   packageJson n s d a e k = JSON_stringify_object (packageJson_object n s d a e k)"
proof -
  have object:
    "map_of (packageJson_object n s d a e k) ''name'' = Some (js_of_string n) \<and>
     map_of (packageJson_object n s d a e k) ''version'' = Some (Str ''0.1.0'') \<and>
     map_of (packageJson_object n s d a e k) ''scripts''
       = map_of (packageJson_object n' s d' a' e' k') ''scripts'' \<and>
     (s \<longrightarrow>
        map_of (packageJson_object n s d a e k) ''main'' = Some (Str ''server.js'') \<and>
        (\<exists>scripts. map_of (packageJson_object n s d a e k) ''scripts'' = Some (Obj scripts) \<and>
           map fst scripts
             = [''build'', ''build:dev'', ''local'', ''server:dev'', ''server:api'', ''start''])) \<and>
     (\<not> s \<longrightarrow>
        map_of (packageJson_object n s d a e k) ''main'' = None \<and>
        (\<exists>scripts. map_of (packageJson_object n s d a e k) ''scripts'' = Some (Obj scripts) \<and>
           map fst scripts = [''build'', ''start''])) \<and>
     distinct (map fst (packageJson_object n s d a e k)) \<and>
     packageJson n s d a e k = JSON_stringify_object (packageJson_object n s d a e k)"
    by (simp add: packageJson_object_def packageJson_def)
  show ?thesis
    by (intro conjI impI, rule packageJson_text, rule quote_plain, assumption)
       (use object in blast)+
qed

theorem packageJson_document_witness:
  "map (\<lambda>c. if c = CHR 0x22 then CHR ''|'' else c)
     (packageJson (Some ''myApp'') False [] [] [] (Some [''react'', ''app'']))
   = ''{\<newline>  |name|: |myApp|,\<newline>  |version|: |0.1.0|,\<newline>  |description|: ||,\<newline>  |keywords|: [\<newline>    |react|,\<newline>    |app|\<newline>  ],\<newline>  |author|: ||,\<newline>  |email|: ||,\<newline>  |scripts|: {\<newline>    |build|: |cross-env NODE_ENV=production webpack --mode production --env.prod|,\<newline>    |start|: |cross-env NODE_ENV=development webpack-dev-server --mode development --env.dev --open --progress|\<newline>  }\<newline>}'' \<and>
   map (\<lambda>c. if c = CHR 0x22 then CHR ''|'' else c)
     (packageJson (Some ''myApp'') True [] [] [] (Some []))
   = ''{\<newline>  |name|: |myApp|,\<newline>  |version|: |0.1.0|,\<newline>  |description|: ||,\<newline>  |keywords|: [],\<newline>  |author|: ||,\<newline>  |email|: ||,\<newline>  |main|: |server.js|,\<newline>  |scripts|: {\<newline>    |build|: |cross-env NODE_ENV=production webpack --mode production --env.prod|,\<newline>    |build:dev|: |cross-env NODE_ENV=development webpack --mode development --env.dev|,\<newline>    |local|: |npm run server:api|,\<newline>    |server:dev|: |webpack-dev-server --mode development --env.dev --open --progress|,\<newline>    |server:api|: |nodemon server.js|,\<newline>    |start|: |cross-env NODE_ENV=development npm-run-all --parallel server:*|\<newline>  }\<newline>}'' \<and>
   quote ''myApp'' = CHR 0x22 # ''myApp'' @ [CHR 0x22] \<and>
   map_of (packageJson_object (Some ''myApp'') True [] [] [] (Some [])) ''main''
     = Some (Str ''server.js'') \<and>
   map_of (packageJson_object (Some ''myApp'') False [] [] [] (Some [])) ''main'' = None"
  using packageJson_document
          [of "Some ''myApp''" False "[]" "[]" "[]" "Some [''react'', ''app'']" "''myApp''"]
        packageJson_document [of "Some ''myApp''" True "[]" "[]" "[]" "Some []" "''myApp''"]
        packageJson_document [of "Some ''myApp''" False "[]" "[]" "[]" "Some []" "''myApp''"]
  by (simp add: quote_def json_escape_def)

subsection \<open>Determinism of the renderers\<close>

text \<open>
  C9. Two runs on the same options, with any two random sources: the environment file is
  the same text in both when \<open>mongo\<close> and \<open>server\<close> are not both set, and in every case
  the two texts are one common text around the line \<open>secret=<uuid>\<close>, which starts at
  the start of a line and whose UUID holds no line break. \<open>packageJson\<close> reads no random
  source, and every file-system call of \<open>createFiles\<close> but the first, the manifest among
  them, is the same in both runs; the first writes the environment file.
\<close>

theorem renderers_deterministic:
  "(\<not> (m \<and> s) \<longrightarrow> dotEnv rnd1 n p m s = dotEnv rnd2 n p m s) \<and>
   (\<exists>pre post. (pre = [] \<or> last pre = CHR 0x0A) \<and>
      (\<forall>rnd. dotEnv rnd n p m s
         = pre @ (if m \<and> s then ''secret='' @ uuid rnd @ [CHR 0x0A] else []) @ post)) \<and>
   CHR 0x0A \<notin> set (uuid rnd1) \<and>
   createFiles wc rnd1 opts
     = WriteFile (appDir opts @ ''/.env'')
         (dotEnv rnd1 (appName opts) None (mongo opts) (server opts))
       # tl (createFiles wc rnd2 opts) \<and>
   WriteFile (appDir opts @ ''/package.json'')
       (packageJson (appName opts) (server opts) (description opts) (author opts) (email opts)
          (Some (keywords opts)))
     \<in> set (tl (createFiles wc rnd2 opts))"
proof (intro conjI)
  show "\<not> (m \<and> s) \<longrightarrow> dotEnv rnd1 n p m s = dotEnv rnd2 n p m s"
    by (auto simp: dotEnv_cases)
  show "\<exists>pre post. (pre = [] \<or> last pre = CHR 0x0A) \<and>
      (\<forall>rnd. dotEnv rnd n p m s
         = pre @ (if m \<and> s then ''secret='' @ uuid rnd @ [CHR 0x0A] else []) @ post)"
  proof (cases "m \<and> s")
    case True
    let ?pre = "''PORT='' @ js_template (map_option Number_toString p) @ [CHR 0x0A]
        @ ''mongoURI=mongodb://localhost:27017/'' @ js_template n @ [CHR 0x0A]
        @ ''mongoSession='' @ js_template n @ ''Sessions'' @ [CHR 0x0A]"
    let ?post = "''appName='' @ js_template n @ [CHR 0x0A]"
    have "last ?pre = CHR 0x0A" by simp
    moreover have "\<forall>rnd. dotEnv rnd n p m s
         = ?pre @ (if m \<and> s then ''secret='' @ uuid rnd @ [CHR 0x0A] else []) @ ?post"
      using True by (simp add: dotEnv_cases)
    ultimately show ?thesis by blast
  next
    case False
    have "\<forall>rnd. dotEnv rnd n p m s
         = [] @ (if m \<and> s then ''secret='' @ uuid rnd @ [CHR 0x0A] else []) @ dotEnv rnd1 n p m s"
      using False by (auto simp: dotEnv_cases)
    then show ?thesis by blast
  qed
  show "CHR 0x0A \<notin> set (uuid rnd1)"
    by (rule uuid_no_newline)
  show "createFiles wc rnd1 opts
     = WriteFile (appDir opts @ ''/.env'')
         (dotEnv rnd1 (appName opts) None (mongo opts) (server opts))
       # tl (createFiles wc rnd2 opts)"
    by (simp add: createFiles_def)
  show "WriteFile (appDir opts @ ''/package.json'')
       (packageJson (appName opts) (server opts) (description opts) (author opts) (email opts)
          (Some (keywords opts)))
     \<in> set (tl (createFiles wc rnd2 opts))"
    by (simp add: createFiles_def)
qed

theorem renderers_deterministic_witness:
  "dotEnv Suc (Some ''my-app'') None False True
     = dotEnv (\<lambda>i. 15 - i) (Some ''my-app'') None False True \<and>
   CHR 0x0A \<notin> set (uuid Suc) \<and>
   tl (createFiles (\<lambda>b. if b then ''redux'' else ''plain'') Suc
         (cla_options.extend (defaultOptions\<lparr> appName := Some ''myApp'', mongo := True \<rparr>)
            (options.fields True True ''/home/dev/myApp'')))
     = tl (createFiles (\<lambda>b. if b then ''redux'' else ''plain'') (\<lambda>i. 15 - i)
         (cla_options.extend (defaultOptions\<lparr> appName := Some ''myApp'', mongo := True \<rparr>)
            (options.fields True True ''/home/dev/myApp'')))"
  using renderers_deterministic
    [of False True Suc "Some ''my-app''" None "\<lambda>i. 15 - i"
        "\<lambda>b. if b then ''redux'' else ''plain''"
        "cla_options.extend (defaultOptions\<lparr> appName := Some ''myApp'', mongo := True \<rparr>)
           (options.fields True True ''/home/dev/myApp'')"]
  by simp

end
